theory Spec2Isabelle
  imports Complex_Main "HOL-Library.Word" "HOL-Library.Signed_Division"
begin

section \<open>Host types of the subgraph mappings\<close>

text \<open>
  The mappings are AssemblyScript over the graph-ts host library.
  \<^item> \<open>i32\<close> is a 32-bit two's complement integer: \<open>+\<close> wraps, \<open>/\<close> truncates
    towards zero.
  \<^item> \<open>BigInt\<close> is an unbounded integer.
  \<^item> \<open>BigDecimal\<close> is the host's arbitrary-precision decimal. Its values are
    modelled as rationals and \<open>plus\<close>, \<open>times\<close>, \<open>div\<close> as the exact field
    operations; \<open>div\<close> by zero aborts the handler.
  \<^item> \<open>BigInt.toI32\<close> fails (aborts the handler) when the value does not fit
    into an \<open>i32\<close>.
  An abort ends the handler with no store change; it is the \<open>Inl\<close> result.
\<close>

type_synonym i32 = "32 word"
type_synonym BigInt = int
type_synonym BigDecimal = rat

datatype abort = Overflow | DivisionByZero | CallReverted

definition toI32 :: "BigInt \<Rightarrow> abort + i32" where
  "toI32 x = (if - (2 ^ 31) \<le> x \<and> x < 2 ^ 31 then Inr (word_of_int x) else Inl Overflow)"

definition i32_div :: "i32 \<Rightarrow> i32 \<Rightarrow> i32" where
  "i32_div a b = word_of_int (sint a sdiv sint b)"

definition bd_div :: "BigDecimal \<Rightarrow> BigDecimal \<Rightarrow> abort + BigDecimal" where
  "bd_div x y = (if y = 0 then Inl DivisionByZero else Inr (x / y))"

definition toBigDecimal :: "BigInt \<Rightarrow> BigDecimal" where
  "toBigDecimal x = of_int x"

text \<open>Decimal rendering of an \<open>i32\<close> (\<open>toString\<close>).\<close>

fun natToString :: "nat \<Rightarrow> string" where
  "natToString n =
     (if n < 10 then [''0123456789'' ! n]
      else natToString (n div 10) @ [''0123456789'' ! (n mod 10)])"

declare natToString.simps [simp del]

definition i32ToString :: "i32 \<Rightarrow> string" where
  "i32ToString w =
     (if sint w < 0 then CHR ''-'' # natToString (nat (- sint w))
      else natToString (nat (sint w)))"

text \<open>\<open>toLowerCase\<close> on the ASCII letters (addresses are hexadecimal text).\<close>

definition lowerChar :: "char \<Rightarrow> char" where
  "lowerChar c =
     (case map_of (zip ''ABCDEFGHIJKLMNOPQRSTUVWXYZ'' ''abcdefghijklmnopqrstuvwxyz'') c of
        Some l \<Rightarrow> l
      | None \<Rightarrow> c)"

definition toLowerCase :: "string \<Rightarrow> string" where
  "toLowerCase s = map lowerChar s"

section \<open>Entities and the store\<close>

record Token =
  tok_decimals :: i32
  tok_symbol :: "string option"
  tok_name :: "string option"
  tok_chainId :: i32
  tok_createdAtTimestamp :: BigInt

record Pool =
  pool_version :: i32
  pool_chainId :: i32
  pool_token0 :: string
  pool_token1 :: string
  pool_feeTierBps :: i32
  pool_tickSpacing :: i32
  pool_createdAtTimestamp :: BigInt

record PoolDayData =
  day_pool :: string
  day_date :: i32
  day_volumeToken0 :: BigDecimal
  day_volumeToken1 :: BigDecimal
  day_swapCount :: i32
  day_volumeUSD :: BigDecimal
  day_feesUSD :: BigDecimal
  day_tvlUSD :: BigDecimal

record PoolHourData =
  hour_pool :: string
  hour_hourStartUnix :: i32
  hour_volumeToken0 :: BigDecimal
  hour_volumeToken1 :: BigDecimal
  hour_swapCount :: i32
  hour_volumeUSD :: BigDecimal
  hour_feesUSD :: BigDecimal
  hour_tvlUSD :: BigDecimal

record PoolPriceHour =
  ph_pool :: string
  ph_hourStartUnix :: i32
  ph_sqrtPriceX96 :: BigInt
  ph_price0 :: BigDecimal
  ph_price1 :: BigDecimal
  ph_liquidity :: BigInt
  ph_updatedAt :: i32

text \<open>The entity store. The \<open>id\<close> of an entity is its key in the store: an
  entity in the handler's memory is the pair of its id and its fields, \<open>load\<close> is
  a lookup by id and \<open>save\<close> an update at the entity's id.\<close>

record Store =
  pools :: "string \<rightharpoonup> Pool"
  tokens :: "string \<rightharpoonup> Token"
  poolDayDatas :: "string \<rightharpoonup> PoolDayData"
  poolHourDatas :: "string \<rightharpoonup> PoolHourData"
  poolPriceHours :: "string \<rightharpoonup> PoolPriceHour"

text \<open>The Swap event: \<open>ev_address\<close> is \<open>event.address.toHex()\<close>,
  \<open>ev_timestamp\<close> is \<open>event.block.timestamp\<close>, the rest are \<open>event.params\<close>.\<close>

record Swap =
  ev_address :: string
  ev_timestamp :: BigInt
  amount0 :: BigInt
  amount1 :: BigInt
  sqrtPriceX96 :: BigInt
  liquidity :: BigInt

definition save_day :: "string \<times> PoolDayData \<Rightarrow> Store \<Rightarrow> Store" where
  "save_day ent s = s\<lparr>poolDayDatas := (poolDayDatas s)(fst ent \<mapsto> snd ent)\<rparr>"

definition save_hour :: "string \<times> PoolHourData \<Rightarrow> Store \<Rightarrow> Store" where
  "save_hour ent s = s\<lparr>poolHourDatas := (poolHourDatas s)(fst ent \<mapsto> snd ent)\<rparr>"

definition save_priceHour :: "string \<times> PoolPriceHour \<Rightarrow> Store \<Rightarrow> Store" where
  "save_priceHour ent s = s\<lparr>poolPriceHours := (poolPriceHours s)(fst ent \<mapsto> snd ent)\<rparr>"

section \<open>The aggregate-only swap mapping (toDecimal, ensureDay, ensureHour)\<close>






definition ensureDay :: "Store \<Rightarrow> string \<Rightarrow> BigInt \<Rightarrow> abort + string \<times> PoolDayData" where
  "ensureDay s poolId ts =
     (case toI32 ts of
        Inl e \<Rightarrow> Inl e
      | Inr t \<Rightarrow>
          let dayId = i32_div t 86400;
              id = poolId @ ''-'' @ i32ToString dayId
          in (case poolDayDatas s id of
                Some ent \<Rightarrow> Inr (id, ent)
              | None \<Rightarrow>
                  Inr (id, \<lparr>day_pool = poolId, day_date = dayId,
                       day_volumeToken0 = 0, day_volumeToken1 = 0, day_swapCount = 0,
                       day_volumeUSD = 0, day_feesUSD = 0, day_tvlUSD = 0\<rparr>)))"

definition ensureHour :: "Store \<Rightarrow> string \<Rightarrow> BigInt \<Rightarrow> abort + string \<times> PoolHourData" where
  "ensureHour s poolId ts =
     (case toI32 ts of
        Inl e \<Rightarrow> Inl e
      | Inr t \<Rightarrow>
          let hourId = i32_div t 3600;
              id = poolId @ ''-'' @ i32ToString hourId
          in (case poolHourDatas s id of
                Some ent \<Rightarrow> Inr (id, ent)
              | None \<Rightarrow>
                  Inr (id, \<lparr>hour_pool = poolId, hour_hourStartUnix = hourId,
                       hour_volumeToken0 = 0, hour_volumeToken1 = 0, hour_swapCount = 0,
                       hour_volumeUSD = 0, hour_feesUSD = 0, hour_tvlUSD = 0\<rparr>)))"











section \<open>The unified swap mapping (v3Pool.ts)\<close>

definition USDC :: string where
  "USDC = ''0xa0b86991c6218b36c1d19d4a2e9eb0ce3606eb48''"

definition USDT :: string where
  "USDT = ''0xdac17f958d2ee523a2206206994597c13d831ec7''"

definition isStable :: "string \<Rightarrow> bool" where
  "isStable addr = (let a = toLowerCase addr in a = USDC \<or> a = USDT)"

text \<open>\<open>safeBalanceOf\<close> binds the token contract and calls \<open>balanceOf\<close>; the chain is
  the parameter \<open>balanceOf\<close> (token address, owner), \<open>None\<close> when the call reverts.\<close>

definition safeBalanceOf ::
  "(string \<Rightarrow> string \<Rightarrow> BigInt option) \<Rightarrow> string \<Rightarrow> string \<Rightarrow> abort + BigInt" where
  "safeBalanceOf balanceOf tokenAddr owner =
     (case balanceOf tokenAddr owner of None \<Rightarrow> Inl CallReverted | Some b \<Rightarrow> Inr b)"

function exponentToBigDecimal_loop :: "int \<Rightarrow> int \<Rightarrow> BigDecimal \<Rightarrow> BigDecimal" where
  "exponentToBigDecimal_loop i decimals result =
     (if i < decimals then exponentToBigDecimal_loop (i + 1) decimals (result * 10)
      else result)"
  by pat_completeness auto
termination
  by (relation "measure (\<lambda>(i, decimals, result). nat (decimals - i))") auto

declare exponentToBigDecimal_loop.simps [simp del]

definition exponentToBigDecimal :: "i32 \<Rightarrow> BigDecimal" where
  "exponentToBigDecimal decimals = exponentToBigDecimal_loop 0 (sint decimals) 1"

definition hourId :: "BigInt \<Rightarrow> abort + i32" where
  "hourId ts = (case toI32 ts of Inl e \<Rightarrow> Inl e | Inr t \<Rightarrow> Inr (i32_div t 3600))"

definition dayId :: "BigInt \<Rightarrow> abort + i32" where
  "dayId ts = (case toI32 ts of Inl e \<Rightarrow> Inl e | Inr t \<Rightarrow> Inr (i32_div t 86400))"

definition ensurePoolDayData :: "Store \<Rightarrow> string \<Rightarrow> BigInt \<Rightarrow> abort + string \<times> PoolDayData" where
  "ensurePoolDayData s poolId ts =
     (case dayId ts of
        Inl e \<Rightarrow> Inl e
      | Inr d \<Rightarrow>
          let id = poolId @ ''-'' @ i32ToString d
          in (case poolDayDatas s id of
                Some p \<Rightarrow> Inr (id, p)
              | None \<Rightarrow>
                  Inr (id, \<lparr>day_pool = poolId, day_date = d,
                       day_volumeToken0 = 0, day_volumeToken1 = 0, day_swapCount = 0,
                       day_volumeUSD = 0, day_feesUSD = 0, day_tvlUSD = 0\<rparr>)))"

definition ensurePoolHourData :: "Store \<Rightarrow> string \<Rightarrow> BigInt \<Rightarrow> abort + string \<times> PoolHourData" where
  "ensurePoolHourData s poolId ts =
     (case hourId ts of
        Inl e \<Rightarrow> Inl e
      | Inr h \<Rightarrow>
          let id = poolId @ ''-'' @ i32ToString h
          in (case poolHourDatas s id of
                Some p \<Rightarrow> Inr (id, p)
              | None \<Rightarrow>
                  Inr (id, \<lparr>hour_pool = poolId, hour_hourStartUnix = h,
                       hour_volumeToken0 = 0, hour_volumeToken1 = 0, hour_swapCount = 0,
                       hour_volumeUSD = 0, hour_feesUSD = 0, hour_tvlUSD = 0\<rparr>)))"

definition ensurePriceHour :: "Store \<Rightarrow> string \<Rightarrow> BigInt \<Rightarrow> abort + string \<times> PoolPriceHour" where
  "ensurePriceHour s poolId ts =
     (case hourId ts of
        Inl e \<Rightarrow> Inl e
      | Inr h \<Rightarrow>
          let id = poolId @ ''-'' @ i32ToString h
          in (case poolPriceHours s id of
                Some ph \<Rightarrow> Inr (id, ph)
              | None \<Rightarrow>
                  Inr (id, \<lparr>ph_pool = poolId, ph_hourStartUnix = h,
                       ph_sqrtPriceX96 = 0, ph_price0 = 0, ph_price1 = 0,
                       ph_liquidity = 0, ph_updatedAt = 0\<rparr>)))"

definition absBigInt :: "BigInt \<Rightarrow> BigInt" where
  "absBigInt x = (if x \<ge> 0 then x else x * (- 1))"

text \<open>\<open>pricesFromSqrt\<close> returns the array \<open>[p0, p1]\<close>, here a pair.\<close>

definition pricesFromSqrt :: "BigInt \<Rightarrow> i32 \<Rightarrow> i32 \<Rightarrow> abort + BigDecimal \<times> BigDecimal" where
  "pricesFromSqrt sqrtP token0Decimals token1Decimals =
     (let Q192 = (2::int) ^ 192;
          num = toBigDecimal (sqrtP * sqrtP);
          denom = toBigDecimal Q192
      in case bd_div num denom of
           Inl e \<Rightarrow> Inl e
         | Inr ratio \<Rightarrow>
        (case bd_div (exponentToBigDecimal token0Decimals)
                     (exponentToBigDecimal token1Decimals) of
           Inl e \<Rightarrow> Inl e
         | Inr adj \<Rightarrow>
             let p0 = ratio * adj
             in if p0 = 0 then Inr (0, 0)
                else (case bd_div 1 p0 of Inl e \<Rightarrow> Inl e | Inr p1 \<Rightarrow> Inr (p0, p1))))"

text \<open>
  \<open>handleSwap\<close> of v3Pool.ts, in the three stages of its body after both tokens
  are loaded. The handler reads the identifiers \<open>p0\<close> and \<open>p1\<close> without binding
  them anywhere (they are locals of \<open>pricesFromSqrt\<close>, which the handler never
  calls); they are parameters here.
\<close>

definition handleSwap_volumes ::
  "Store \<Rightarrow> string \<times> PoolDayData \<Rightarrow> string \<times> PoolHourData \<Rightarrow> BigDecimal \<Rightarrow> BigDecimal
     \<Rightarrow> Token \<Rightarrow> Token \<Rightarrow> abort + (string \<times> PoolDayData) \<times> (string \<times> PoolHourData) \<times> Store" where
  "handleSwap_volumes s dayEnt hourEnt v0 v1 t0 t1 =
     (let d0 = exponentToBigDecimal (tok_decimals t0);
          d1 = exponentToBigDecimal (tok_decimals t1)
      in case bd_div v0 d0 of
           Inl e \<Rightarrow> Inl e
         | Inr q0 \<Rightarrow>
        (case bd_div v1 d1 of
           Inl e \<Rightarrow> Inl e
         | Inr q1 \<Rightarrow>
             let day = snd dayEnt;
                 day' = (fst dayEnt,
                         day\<lparr>day_volumeToken0 := day_volumeToken0 day + q0,
                             day_volumeToken1 := day_volumeToken1 day + q1,
                             day_swapCount := day_swapCount day + 1\<rparr>);
                 s1 = save_day day' s;
                 hour = snd hourEnt;
                 hour' = (fst hourEnt,
                          hour\<lparr>hour_volumeToken0 := hour_volumeToken0 hour + q0,
                               hour_volumeToken1 := hour_volumeToken1 hour + q1,
                               hour_swapCount := hour_swapCount hour + 1\<rparr>)
             in Inr (day', hour', save_hour hour' s1)))"

definition handleSwap_price ::
  "BigDecimal \<Rightarrow> BigDecimal \<Rightarrow> Store \<Rightarrow> Swap \<Rightarrow> string \<Rightarrow> abort + Store" where
  "handleSwap_price p0 p1 s event poolId =
     (case ensurePriceHour s poolId (ev_timestamp event) of
        Inl e \<Rightarrow> Inl e
      | Inr (phKey, ph) \<Rightarrow>
          (case toI32 (ev_timestamp event) of
             Inl e \<Rightarrow> Inl e
           | Inr t \<Rightarrow>
               Inr (save_priceHour
                      (phKey, ph\<lparr>ph_sqrtPriceX96 := sqrtPriceX96 event, ph_price0 := p0,
                          ph_price1 := p1, ph_liquidity := liquidity event,
                          ph_updatedAt := t\<rparr>) s)))"

definition handleSwap_tvl ::
  "(string \<Rightarrow> string \<Rightarrow> BigInt option) \<Rightarrow> BigDecimal \<Rightarrow> BigDecimal \<Rightarrow> Store \<Rightarrow> Swap
     \<Rightarrow> Pool \<Rightarrow> Token \<Rightarrow> Token \<Rightarrow> string \<times> PoolDayData \<Rightarrow> string \<times> PoolHourData
     \<Rightarrow> abort + Store" where
  "handleSwap_tvl balanceOf p0 p1 s event pool t0 t1 dayEnt hourEnt =
     (let poolAddr = ev_address event
      in case safeBalanceOf balanceOf (pool_token0 pool) poolAddr of
           Inl e \<Rightarrow> Inl e
         | Inr bal0Raw \<Rightarrow>
        (case safeBalanceOf balanceOf (pool_token1 pool) poolAddr of
           Inl e \<Rightarrow> Inl e
         | Inr bal1Raw \<Rightarrow>
        (case bd_div (toBigDecimal bal0Raw) (exponentToBigDecimal (tok_decimals t0)) of
           Inl e \<Rightarrow> Inl e
         | Inr amt0 \<Rightarrow>
        (case bd_div (toBigDecimal bal1Raw) (exponentToBigDecimal (tok_decimals t1)) of
           Inl e \<Rightarrow> Inl e
         | Inr amt1 \<Rightarrow>
             let tvlUSD =
                   (if isStable (pool_token0 pool) \<and> \<not> isStable (pool_token1 pool)
                    then amt0 + amt1 * p1
                    else if isStable (pool_token1 pool) \<and> \<not> isStable (pool_token0 pool)
                    then amt1 + amt0 * p0
                    else 0);
                 s1 = save_day (fst dayEnt, (snd dayEnt)\<lparr>day_tvlUSD := tvlUSD\<rparr>) s
             in Inr (save_hour (fst hourEnt, (snd hourEnt)\<lparr>hour_tvlUSD := tvlUSD\<rparr>) s1)))))"

definition handleSwap ::
  "(string \<Rightarrow> string \<Rightarrow> BigInt option) \<Rightarrow> BigDecimal \<Rightarrow> BigDecimal \<Rightarrow> Store \<Rightarrow> Swap
     \<Rightarrow> abort + Store" where
  "handleSwap balanceOf p0 p1 s event =
     (let poolId = toLowerCase (ev_address event)
      in case pools s poolId of
           None \<Rightarrow> Inr s
         | Some pool \<Rightarrow>
        (case ensurePoolDayData s poolId (ev_timestamp event) of
           Inl e \<Rightarrow> Inl e
         | Inr day \<Rightarrow>
        (case ensurePoolHourData s poolId (ev_timestamp event) of
           Inl e \<Rightarrow> Inl e
         | Inr hour \<Rightarrow>
             let v0 = toBigDecimal (absBigInt (amount0 event));
                 v1 = toBigDecimal (absBigInt (amount1 event))
             in (case (tokens s (pool_token0 pool), tokens s (pool_token1 pool)) of
                   (Some t0, Some t1) \<Rightarrow>
                     (case handleSwap_volumes s day hour v0 v1 t0 t1 of
                        Inl e \<Rightarrow> Inl e
                      | Inr (day', hour', s2) \<Rightarrow>
                     (case handleSwap_price p0 p1 s2 event poolId of
                        Inl e \<Rightarrow> Inl e
                      | Inr s3 \<Rightarrow>
                          handleSwap_tvl balanceOf p0 p1 s3 event pool t0 t1 day' hour'))
                 | _ \<Rightarrow> Inr s))))"

section \<open>The fee-view script (two DO blocks over information_schema.columns)\<close>

text \<open>A row of \<open>information_schema.columns\<close>, with the columns the script reads.\<close>

record column_row =
  table_name :: string
  column_name :: string
  data_type :: string
  ordinal_position :: nat

text \<open>SQL \<open>LIKE\<close>: \<open>%\<close> matches any run of characters, \<open>_\<close> any one character.\<close>

fun like :: "string \<Rightarrow> string \<Rightarrow> bool" where
  "like [] [] = True"
| "like [] (c # cs) = False"
| "like (p # ps) [] = (p = CHR ''%'' \<and> like ps [])"
| "like (p # ps) (c # cs) =
     (if p = CHR ''%'' then like ps (c # cs) \<or> like (p # ps) cs
      else if p = CHR ''_'' then like ps cs
      else p = c \<and> like ps cs)"

definition fee0_in_list :: "string \<Rightarrow> bool" where
  "fee0_in_list n =
     (n \<in> set [''f0'', ''fee0'', ''fees0'', ''fee_token0'', ''fees_token0'', ''token0_fee'',
               ''token0_fees'', ''collected_fee0'', ''collected_fees0''])"

definition fee0_like :: "string \<Rightarrow> bool" where
  "fee0_like n =
     (like ''fee0%'' n \<or> like ''fees0%'' n \<or> like ''fee_token0%'' n \<or> like ''fees_token0%'' n
      \<or> like ''token0_fee%'' n \<or> like ''token0_fees%'' n)"

definition fee1_in_list :: "string \<Rightarrow> bool" where
  "fee1_in_list n =
     (n \<in> set [''f1'', ''fee1'', ''fees1'', ''fee_token1'', ''fees_token1'', ''token1_fee'',
               ''token1_fees'', ''collected_fee1'', ''collected_fees1''])"

definition fee1_like :: "string \<Rightarrow> bool" where
  "fee1_like n =
     (like ''fee1%'' n \<or> like ''fees1%'' n \<or> like ''fee_token1%'' n \<or> like ''fees_token1%'' n
      \<or> like ''token1_fee%'' n \<or> like ''token1_fees%'' n)"

definition hour_time_in_list :: "string \<Rightarrow> bool" where
  "hour_time_in_list n =
     (n \<in> set [''hour_start_unix'', ''hour_start'', ''hour_ts'', ''ts'', ''timestamp'',
               ''ts_unix'', ''started_at''])"

definition day_time_in_list :: "string \<Rightarrow> bool" where
  "day_time_in_list n =
     (n \<in> set [''date'', ''day'', ''day_start'', ''day_start_unix'', ''started_at''])"

text \<open>\<open>SELECT ... INTO v FROM information_schema.columns WHERE cond
  ORDER BY ordinal_position LIMIT 1\<close>: the first row of the matching rows in
  ascending ordinal position; \<open>None\<close> (the variable stays NULL) when no row matches.\<close>

definition select_first :: "(column_row \<Rightarrow> bool) \<Rightarrow> column_row list \<Rightarrow> column_row option" where
  "select_first cond cat =
     (case sort_key ordinal_position (filter cond cat) of [] \<Rightarrow> None | r # rs \<Rightarrow> Some r)"

text \<open>The four \<open>WHERE\<close> clauses.\<close>

definition where_f0 :: "string \<Rightarrow> column_row \<Rightarrow> bool" where
  "where_f0 tbl r =
     (table_name r = tbl \<and> (fee0_in_list (column_name r) \<or> fee0_like (column_name r)))"

definition where_f1 :: "string \<Rightarrow> column_row \<Rightarrow> bool" where
  "where_f1 tbl r =
     (table_name r = tbl \<and> (fee1_in_list (column_name r) \<or> fee1_like (column_name r)))"

definition where_time :: "column_row \<Rightarrow> bool" where
  "where_time r = (table_name r = ''pool_hour_data'' \<and> hour_time_in_list (column_name r))"

definition where_date :: "column_row \<Rightarrow> bool" where
  "where_date r = (table_name r = ''pool_day_data'' \<and> day_time_in_list (column_name r))"

definition select_col_f0 :: "string \<Rightarrow> column_row list \<Rightarrow> column_row option" where
  "select_col_f0 tbl cat = select_first (where_f0 tbl) cat"

definition select_col_f1 :: "string \<Rightarrow> column_row list \<Rightarrow> column_row option" where
  "select_col_f1 tbl cat = select_first (where_f1 tbl) cat"

definition select_col_time :: "column_row list \<Rightarrow> column_row option" where
  "select_col_time cat = select_first where_time cat"

definition select_col_date :: "column_row list \<Rightarrow> column_row option" where
  "select_col_date cat = select_first where_date cat"

text \<open>
  The view text the script builds, as syntax: \<open>Col a c\<close> is \<open>a.c\<close>, and
  \<open>When c r e\<close> is a branch \<open>when c then r\<close> of a \<open>case\<close> followed by \<open>e\<close>, the
  remaining branches or the \<open>else\<close> value. The \<open>from\<close> clause with its joins is the
  same text in every run and is not part of the record; the time column is kept
  with the flag that says whether \<open>to_timestamp\<close> is applied to it.
\<close>

datatype sql_expr = Col string string | Null | When sql_expr sql_expr sql_expr

record view_def =
  view_time_column :: string
  view_to_timestamp :: bool
  view_fees_usd :: sql_expr

datatype sql_error =
  Required_columns_not_found string "string option" "string option" "string option"

definition fees_usd_case :: "string \<Rightarrow> string \<Rightarrow> string \<Rightarrow> sql_expr" where
  "fees_usd_case alias col_f0 col_f1 =
     When (Col ''rs0'' ''is_stable'') (Col alias col_f0)
       (When (Col ''rs1'' ''is_stable'') (Col alias col_f1) Null)"

definition integral_type :: "string \<Rightarrow> bool" where
  "integral_type t = (t \<in> set [''integer'', ''bigint'', ''numeric''])"

text \<open>Each DO block maps the catalog and the database's views to the views after
  \<open>EXECUTE\<close>, or raises.\<close>

definition hour_view_block ::
  "column_row list \<Rightarrow> (string \<rightharpoonup> view_def) \<Rightarrow> sql_error + (string \<rightharpoonup> view_def)" where
  "hour_view_block cat views =
     (let col_f0 = map_option column_name (select_col_f0 ''pool_hour_data'' cat);
          col_f1 = map_option column_name (select_col_f1 ''pool_hour_data'' cat);
          col_time = map_option column_name (select_col_time cat);
          typ_time = map_option data_type (select_col_time cat)
      in case (col_f0, col_f1, col_time, typ_time) of
           (Some f0, Some f1, Some t, Some ty) \<Rightarrow>
             Inr (views(''v_pool_hour_fees_usd_partial'' \<mapsto>
                   \<lparr>view_time_column = t, view_to_timestamp = integral_type ty,
                    view_fees_usd = fees_usd_case ''h'' f0 f1\<rparr>))
         | _ \<Rightarrow> Inl (Required_columns_not_found ''pool_hour_data'' col_f0 col_f1 col_time))"


text \<open>Values of a joined row and the value of an expression on it; a \<open>when\<close>
  branch is taken when its condition is true (not when it is false or NULL).\<close>

datatype sql_val = VNull | VBool bool | VNum rat | VText string


text \<open>The catalog rows of the repository's own schema files.\<close>

definition columns_of :: "string \<Rightarrow> (string \<times> string) list \<Rightarrow> column_row list" where
  "columns_of tbl cols =
     map (\<lambda>(i, (n, t)). \<lparr>table_name = tbl, column_name = n, data_type = t,
                           ordinal_position = Suc i\<rparr>)
         (enumerate 0 cols)"

definition repo_catalog :: "column_row list" where
  "repo_catalog =
     columns_of ''tokens''
       [(''id'', ''text''), (''address'', ''text''), (''symbol'', ''text''), (''name'', ''text''),
        (''decimals'', ''integer''), (''chain_id'', ''integer''), (''created_at_ts'', ''bigint'')]
     @ columns_of ''pools''
       [(''id'', ''text''), (''version'', ''smallint''), (''chain_id'', ''integer''),
        (''token0_id'', ''text''), (''token1_id'', ''text''), (''fee_tier_bps'', ''integer''),
        (''tick_spacing'', ''integer''), (''created_at_ts'', ''bigint'')]
     @ columns_of ''pool_day_data''
       [(''id'', ''text''), (''pool_id'', ''text''), (''date'', ''integer''),
        (''volume_token0'', ''numeric''), (''volume_token1'', ''numeric''),
        (''approx_fee_token0'', ''numeric''), (''approx_fee_token1'', ''numeric''),
        (''swap_count'', ''integer'')]
     @ columns_of ''pool_hour_data''
       [(''id'', ''text''), (''pool_id'', ''text''), (''hour_start_unix'', ''integer''),
        (''volume_token0'', ''numeric''), (''volume_token1'', ''numeric''),
        (''approx_fee_token0'', ''numeric''), (''approx_fee_token1'', ''numeric''),
        (''swap_count'', ''integer'')]"

section \<open>Example inputs\<close>

text \<open>A table with the columns \<open>fees0_raw, fees1_raw, hour_start_unix\<close>; a table
  whose first column matches a pattern only and whose second is in the list of
  names; two joined rows.\<close>

definition ex_fee_catalog :: "column_row list" where
  "ex_fee_catalog =
     columns_of ''pool_hour_data''
       [(''fees0_raw'', ''numeric''), (''fees1_raw'', ''numeric''), (''hour_start_unix'', ''integer'')]"

definition ex_pattern_first_catalog :: "column_row list" where
  "ex_pattern_first_catalog =
     columns_of ''pool_hour_data'' [(''fee0_raw'', ''numeric''), (''f0'', ''numeric'')]"



text \<open>A store with one pool (id \<open>0xaa\<close>, tokens \<open>0x01\<close> and \<open>0x02\<close>, neither a
  stable asset, 18 decimals each), the same store without its tokens and with
  existing bucket rows, a swap in hour 2 of day 0, the same swap at timestamp
  \<open>2^32\<close>, and a chain where every balance is 3 tokens.\<close>

definition ex_token :: Token where
  "ex_token = \<lparr>tok_decimals = 18, tok_symbol = None, tok_name = None, tok_chainId = 1,
               tok_createdAtTimestamp = 0\<rparr>"

definition ex_pool :: Pool where
  "ex_pool = \<lparr>pool_version = 3, pool_chainId = 1, pool_token0 = ''0x01'', pool_token1 = ''0x02'',
              pool_feeTierBps = 3000, pool_tickSpacing = 60, pool_createdAtTimestamp = 0\<rparr>"

definition ex_store :: Store where
  "ex_store = \<lparr>pools = [''0xaa'' \<mapsto> ex_pool],
               tokens = [''0x01'' \<mapsto> ex_token, ''0x02'' \<mapsto> ex_token],
               poolDayDatas = Map.empty, poolHourDatas = Map.empty,
               poolPriceHours = Map.empty\<rparr>"

definition ex_swap :: Swap where
  "ex_swap = \<lparr>ev_address = ''0xAA'', ev_timestamp = 7200,
              amount0 = - 1000000000000000000, amount1 = 2500000000000000000000,
              sqrtPriceX96 = 2 ^ 96, liquidity = 1000\<rparr>"

definition ex_store_no_tokens :: Store where
  "ex_store_no_tokens = ex_store\<lparr>tokens := Map.empty\<rparr>"

definition ex_store_tvl :: Store where
  "ex_store_tvl =
     ex_store\<lparr>poolDayDatas :=
                 [''0xaa-0'' \<mapsto> \<lparr>day_pool = ''0xaa'', day_date = 0, day_volumeToken0 = 4,
                                day_volumeToken1 = 9000, day_swapCount = 3, day_volumeUSD = 7,
                                day_feesUSD = 1, day_tvlUSD = 5\<rparr>],
               poolHourDatas :=
                 [''0xaa-2'' \<mapsto> \<lparr>hour_pool = ''0xaa'', hour_hourStartUnix = 2,
                                hour_volumeToken0 = 4, hour_volumeToken1 = 9000,
                                hour_swapCount = 3, hour_volumeUSD = 7, hour_feesUSD = 1,
                                hour_tvlUSD = 5\<rparr>]\<rparr>"


definition ex_balanceOf :: "string \<Rightarrow> string \<Rightarrow> BigInt option" where
  "ex_balanceOf tokenAddr owner = Some 3000000000000000000"

section \<open>Powers of ten and 32-bit conversions\<close>

lemma exponentToBigDecimal_loop_eq:
  "exponentToBigDecimal_loop i n r = r * 10 ^ nat (n - i)"
proof (induction i n r rule: exponentToBigDecimal_loop.induct)
  case (1 i decimals result)
  show ?case
  proof (cases "i < decimals")
    case True
    have n: "nat (decimals - i) = Suc (nat (decimals - (i + 1)))"
      using True by simp
    have "exponentToBigDecimal_loop i decimals result
            = exponentToBigDecimal_loop (i + 1) decimals (result * 10)"
      using True by (subst exponentToBigDecimal_loop.simps) simp
    also have "\<dots> = result * 10 * 10 ^ nat (decimals - (i + 1))"
      using 1 [OF True] .
    finally show ?thesis
      by (simp only: n power_Suc mult.assoc)
  next
    case False
    then have "exponentToBigDecimal_loop i decimals result = result"
      by (subst exponentToBigDecimal_loop.simps) simp
    moreover have "nat (decimals - i) = 0"
      using False by simp
    ultimately show ?thesis
      by simp
  qed
qed

lemma exponentToBigDecimal_eq: "exponentToBigDecimal d = 10 ^ nat (sint d)"
  by (simp add: exponentToBigDecimal_def exponentToBigDecimal_loop_eq)





lemma toI32_in_range: "- (2 ^ 31) \<le> x \<Longrightarrow> x < 2 ^ 31 \<Longrightarrow> toI32 x = Inr (word_of_int x)"
  by (simp add: toI32_def)

lemma sint_i32_of_int: "- (2 ^ 31) \<le> x \<Longrightarrow> x < 2 ^ 31 \<Longrightarrow> sint (word_of_int x :: i32) = x"
  by (simp add: sint_sbintrunc' signed_take_bit_int_eq_self)

lemma i32_div_nonneg:
  assumes "0 \<le> x" "x < 2 ^ 31" "0 < c" "c < 2 ^ 31"
  shows "i32_div (word_of_int x) (word_of_int c) = word_of_int (x div c)"
proof -
  have "sint (word_of_int x :: i32) = x" "sint (word_of_int c :: i32) = c"
    using assms by (simp_all add: sint_i32_of_int)
  moreover have "x sdiv c = x div c"
    using assms by (simp add: signed_divide_int_def sgn_if)
  ultimately show ?thesis by (simp add: i32_div_def)
qed

lemma bd_div_exponentToBigDecimal:
  "bd_div x (exponentToBigDecimal d) = Inr (x / 10 ^ nat (sint d))"
  by (simp add: bd_div_def exponentToBigDecimal_eq)

section \<open>The aggregate-only mapping: what one event and a run of events do\<close>


lemma ensureHour_Inr:
  "ensureHour s p ts = Inr (key, row) \<longleftrightarrow>
     (\<exists>t. toI32 ts = Inr t \<and> key = p @ ''-'' @ i32ToString (i32_div t 3600)
        \<and> row = (case poolHourDatas s key of
                    Some ent \<Rightarrow> ent
                  | None \<Rightarrow> \<lparr>hour_pool = p, hour_hourStartUnix = i32_div t 3600,
                              hour_volumeToken0 = 0, hour_volumeToken1 = 0, hour_swapCount = 0,
                              hour_volumeUSD = 0, hour_feesUSD = 0, hour_tvlUSD = 0\<rparr>))"
  by (auto simp: ensureHour_def Let_def split: sum.splits option.splits)

lemma ensureDay_Inr:
  "ensureDay s p ts = Inr (key, row) \<longleftrightarrow>
     (\<exists>t. toI32 ts = Inr t \<and> key = p @ ''-'' @ i32ToString (i32_div t 86400)
        \<and> row = (case poolDayDatas s key of
                    Some ent \<Rightarrow> ent
                  | None \<Rightarrow> \<lparr>day_pool = p, day_date = i32_div t 86400,
                              day_volumeToken0 = 0, day_volumeToken1 = 0, day_swapCount = 0,
                              day_volumeUSD = 0, day_feesUSD = 0, day_tvlUSD = 0\<rparr>))"
  by (auto simp: ensureDay_def Let_def split: sum.splits option.splits)



















section \<open>Claims about the price function and the scaling\<close>





section \<open>Claims about the bucket ids\<close>

text \<open>
  C9, within the range of \<open>i32\<close>. For a timestamp \<open>ts\<close> with \<open>0 \<le> ts < 2^31\<close> the
  hour id is \<open>floor (ts / 3600)\<close> and the day id is \<open>floor (ts / 86400)\<close>, in \<open>hourId\<close> and \<open>dayId\<close> of
  v3Pool.ts and in the keys and the fresh rows of \<open>ensureHour\<close> and \<open>ensureDay\<close>.
  At \<open>ts = 2^32\<close> the conversion to \<open>i32\<close> fails, and at \<open>ts = -1\<close> the truncating
  division gives 0 where the floor is \<open>-1\<close>.
\<close>

theorem bucket_ids_within_i32:
  assumes "0 \<le> ts" and "ts < 2 ^ 31"
  shows "hourId ts = Inr (word_of_int (ts div 3600))
     \<and> dayId ts = Inr (word_of_int (ts div 86400))
     \<and> sint (word_of_int (ts div 3600) :: i32) = ts div 3600
     \<and> sint (word_of_int (ts div 86400) :: i32) = ts div 86400
     \<and> (\<exists>row. ensureHour s poolId ts
                  = Inr (poolId @ ''-'' @ i32ToString (word_of_int (ts div 3600)), row)
              \<and> (poolHourDatas s (poolId @ ''-'' @ i32ToString (word_of_int (ts div 3600))) = None
                   \<longrightarrow> hour_hourStartUnix row = word_of_int (ts div 3600)))
     \<and> (\<exists>row. ensureDay s poolId ts
                  = Inr (poolId @ ''-'' @ i32ToString (word_of_int (ts div 86400)), row)
              \<and> (poolDayDatas s (poolId @ ''-'' @ i32ToString (word_of_int (ts div 86400))) = None
                   \<longrightarrow> day_date row = word_of_int (ts div 86400)))"
proof -
  have t: "toI32 ts = Inr (word_of_int ts)"
    using assms by (simp add: toI32_def)
  have a: "i32_div (word_of_int ts) 3600 = word_of_int (ts div 3600)"
    using i32_div_nonneg [of ts 3600] assms by simp
  have b: "i32_div (word_of_int ts) 86400 = word_of_int (ts div 86400)"
    using i32_div_nonneg [of ts 86400] assms by simp
  have "0 \<le> ts div 3600" "ts div 3600 < 2 ^ 31" "0 \<le> ts div 86400" "ts div 86400 < 2 ^ 31"
    using assms by simp_all
  then have c: "sint (word_of_int (ts div 3600) :: i32) = ts div 3600"
    "sint (word_of_int (ts div 86400) :: i32) = ts div 86400"
    by (simp_all add: sint_i32_of_int)
  have h: "hourId ts = Inr (word_of_int (ts div 3600))"
    by (simp add: hourId_def t a)
  have d: "dayId ts = Inr (word_of_int (ts div 86400))"
    by (simp add: dayId_def t b)
  have eh: "\<exists>row. ensureHour s poolId ts
                  = Inr (poolId @ ''-'' @ i32ToString (word_of_int (ts div 3600)), row)
              \<and> (poolHourDatas s (poolId @ ''-'' @ i32ToString (word_of_int (ts div 3600))) = None
                   \<longrightarrow> hour_hourStartUnix row = word_of_int (ts div 3600))"
    by (simp add: ensureHour_Inr t a)
  have ed: "\<exists>row. ensureDay s poolId ts
                  = Inr (poolId @ ''-'' @ i32ToString (word_of_int (ts div 86400)), row)
              \<and> (poolDayDatas s (poolId @ ''-'' @ i32ToString (word_of_int (ts div 86400))) = None
                   \<longrightarrow> day_date row = word_of_int (ts div 86400))"
    by (simp add: ensureDay_Inr t b)
  show ?thesis
    using h d c eh ed by blast
qed

theorem bucket_ids_within_i32_witness:
  "(0::int) \<le> 1700000000 \<and> (1700000000::int) < 2 ^ 31
   \<and> hourId 1700000000 = Inr 472222 \<and> dayId 1700000000 = Inr 19675"
  using bucket_ids_within_i32 [of 1700000000] by simp

theorem bucket_ids_overflow_counterexample:
  "hourId 4294967296 = Inl Overflow \<and> dayId 4294967296 = Inl Overflow
   \<and> (4294967296::int) div 3600 = 1193046 \<and> (4294967296::int) div 86400 = 49710
   \<and> hourId (- 1) = Inr 0 \<and> (- 1 :: int) div 3600 = - 1"
  by (simp add: hourId_def dayId_def toI32_def i32_div_def signed_divide_int_def)

section \<open>The fee-view script: column selection and the emitted case\<close>

lemma select_first_None:
  "select_first cond cat = None \<longleftrightarrow> (\<forall>r\<in>set cat. \<not> cond r)"
proof -
  have "select_first cond cat = None \<longleftrightarrow> sort_key ordinal_position (filter cond cat) = []"
    by (simp add: select_first_def split: list.splits)
  also have "\<dots> \<longleftrightarrow> filter cond cat = []"
    by (metis length_0_conv length_sort)
  finally show ?thesis
    by (simp add: filter_empty_conv)
qed

lemma select_first_Some:
  assumes "select_first cond cat = Some r"
  shows "r \<in> set cat \<and> cond r
         \<and> (\<forall>r'\<in>set cat. cond r' \<longrightarrow> ordinal_position r \<le> ordinal_position r')"
proof -
  from assms obtain rs where rs: "sort_key ordinal_position (filter cond cat) = r # rs"
    by (auto simp: select_first_def split: list.splits)
  have "set (r # rs) = set (filter cond cat)"
    using rs by (metis set_sort)
  moreover have "sorted (map ordinal_position (r # rs))"
    using rs by (metis sorted_sort_key)
  ultimately show ?thesis
    by auto
qed



section \<open>Claims about the fee-view script\<close>




text \<open>
  C5, as the queries have it. Each role is resolved by one query whose condition is the
  disjunction of the name list and the patterns (the time roles have a name list
  only): the result is a matching column of the table with the least ordinal
  position among all matching columns, and none exactly when no column matches. A
  column that matches a pattern only is selected before a later column whose name
  is in the list.
\<close>

theorem column_resolution:
  "(select_col_f0 tbl cat = None \<longleftrightarrow> (\<forall>r\<in>set cat. \<not> where_f0 tbl r))
   \<and> (\<forall>r. select_col_f0 tbl cat = Some r \<longrightarrow>
          r \<in> set cat \<and> where_f0 tbl r
          \<and> (\<forall>r'\<in>set cat. where_f0 tbl r' \<longrightarrow> ordinal_position r \<le> ordinal_position r'))
   \<and> (select_col_f1 tbl cat = None \<longleftrightarrow> (\<forall>r\<in>set cat. \<not> where_f1 tbl r))
   \<and> (\<forall>r. select_col_f1 tbl cat = Some r \<longrightarrow>
          r \<in> set cat \<and> where_f1 tbl r
          \<and> (\<forall>r'\<in>set cat. where_f1 tbl r' \<longrightarrow> ordinal_position r \<le> ordinal_position r'))
   \<and> (select_col_time cat = None \<longleftrightarrow> (\<forall>r\<in>set cat. \<not> where_time r))
   \<and> (\<forall>r. select_col_time cat = Some r \<longrightarrow>
          r \<in> set cat \<and> where_time r
          \<and> (\<forall>r'\<in>set cat. where_time r' \<longrightarrow> ordinal_position r \<le> ordinal_position r'))
   \<and> (select_col_date cat = None \<longleftrightarrow> (\<forall>r\<in>set cat. \<not> where_date r))
   \<and> (\<forall>r. select_col_date cat = Some r \<longrightarrow>
          r \<in> set cat \<and> where_date r
          \<and> (\<forall>r'\<in>set cat. where_date r' \<longrightarrow> ordinal_position r \<le> ordinal_position r'))
   \<and> (\<forall>r. where_f0 tbl r \<longleftrightarrow>
          table_name r = tbl \<and> (fee0_in_list (column_name r) \<or> fee0_like (column_name r)))
   \<and> (\<forall>r. where_f1 tbl r \<longleftrightarrow>
          table_name r = tbl \<and> (fee1_in_list (column_name r) \<or> fee1_like (column_name r)))"
proof -
  have A: "(select_first cond cat = None \<longleftrightarrow> (\<forall>r\<in>set cat. \<not> cond r))
     \<and> (\<forall>r. select_first cond cat = Some r \<longrightarrow>
            r \<in> set cat \<and> cond r
            \<and> (\<forall>r'\<in>set cat. cond r' \<longrightarrow> ordinal_position r \<le> ordinal_position r'))"
    for cond
    using select_first_None [of cond cat] select_first_Some [of cond cat] by blast
  have W0: "\<forall>r. where_f0 tbl r \<longleftrightarrow>
          table_name r = tbl \<and> (fee0_in_list (column_name r) \<or> fee0_like (column_name r))"
    by (simp add: where_f0_def)
  have W1: "\<forall>r. where_f1 tbl r \<longleftrightarrow>
          table_name r = tbl \<and> (fee1_in_list (column_name r) \<or> fee1_like (column_name r))"
    by (simp add: where_f1_def)
  show ?thesis
    unfolding select_col_f0_def select_col_f1_def select_col_time_def select_col_date_def
    by (intro conjI A [THEN conjunct1] A [THEN conjunct2] W0 W1)
qed

theorem column_resolution_witness:
  "\<exists>r. select_col_f0 ''pool_hour_data'' ex_fee_catalog = Some r
       \<and> r \<in> set ex_fee_catalog \<and> where_f0 ''pool_hour_data'' r"
proof -
  have "\<not> (\<forall>r\<in>set ex_fee_catalog. \<not> where_f0 ''pool_hour_data'' r)"
    by (simp add: ex_fee_catalog_def columns_of_def where_f0_def fee0_in_list_def fee0_like_def)
  then obtain r where "select_col_f0 ''pool_hour_data'' ex_fee_catalog = Some r"
    using column_resolution [of "''pool_hour_data''" ex_fee_catalog] by auto
  then show ?thesis
    using column_resolution [of "''pool_hour_data''" ex_fee_catalog] by blast
qed

theorem column_resolution_counterexample:
  "map_option column_name (select_col_f0 ''pool_hour_data'' ex_pattern_first_catalog)
     = Some ''fee0_raw''
   \<and> \<not> fee0_in_list ''fee0_raw'' \<and> fee0_like ''fee0_raw''
   \<and> fee0_in_list ''f0''
   \<and> ex_pattern_first_catalog
      = [\<lparr>table_name = ''pool_hour_data'', column_name = ''fee0_raw'', data_type = ''numeric'',
           ordinal_position = 1\<rparr>,
         \<lparr>table_name = ''pool_hour_data'', column_name = ''f0'', data_type = ''numeric'',
           ordinal_position = 2\<rparr>]"
  by (simp add: select_col_f0_def select_first_def ex_pattern_first_catalog_def columns_of_def
      where_f0_def fee0_in_list_def fee0_like_def)

text \<open>
  C10. In the repository's own schema the fee columns of \<open>pool_hour_data\<close> are
  \<open>approx_fee_token0\<close> and \<open>approx_fee_token1\<close>. Neither name is in a name list or
  matches a pattern of either fee role, both fee selections are empty, the time
  column resolves to \<open>hour_start_unix\<close>, and the block raises the missing-columns
  exception instead of defining a view, whatever views the database has.
\<close>

theorem repo_hour_view_fails:
  "\<not> fee0_in_list ''approx_fee_token0'' \<and> \<not> fee0_like ''approx_fee_token0''
   \<and> \<not> fee1_in_list ''approx_fee_token0'' \<and> \<not> fee1_like ''approx_fee_token0''
   \<and> \<not> fee0_in_list ''approx_fee_token1'' \<and> \<not> fee0_like ''approx_fee_token1''
   \<and> \<not> fee1_in_list ''approx_fee_token1'' \<and> \<not> fee1_like ''approx_fee_token1''
   \<and> select_col_f0 ''pool_hour_data'' repo_catalog = None
   \<and> select_col_f1 ''pool_hour_data'' repo_catalog = None
   \<and> map_option column_name (select_col_time repo_catalog) = Some ''hour_start_unix''
   \<and> hour_view_block repo_catalog views
       = Inl (Required_columns_not_found ''pool_hour_data'' None None (Some ''hour_start_unix''))"
proof -
  have n0: "select_col_f0 ''pool_hour_data'' repo_catalog = None"
    unfolding select_col_f0_def select_first_None
    by (simp add: repo_catalog_def columns_of_def where_f0_def fee0_in_list_def fee0_like_def)
  have n1: "select_col_f1 ''pool_hour_data'' repo_catalog = None"
    unfolding select_col_f1_def select_first_None
    by (simp add: repo_catalog_def columns_of_def where_f1_def fee1_in_list_def fee1_like_def)
  have t: "map_option column_name (select_col_time repo_catalog) = Some ''hour_start_unix''"
    by (simp add: select_col_time_def select_first_def repo_catalog_def columns_of_def
        where_time_def hour_time_in_list_def)
  have b: "hour_view_block repo_catalog views
       = Inl (Required_columns_not_found ''pool_hour_data'' None None (Some ''hour_start_unix''))"
    using t by (simp add: hour_view_block_def n0 n1 Let_def)
  have m: "\<not> fee0_in_list ''approx_fee_token0''" "\<not> fee0_like ''approx_fee_token0''"
    "\<not> fee1_in_list ''approx_fee_token0''" "\<not> fee1_like ''approx_fee_token0''"
    "\<not> fee0_in_list ''approx_fee_token1''" "\<not> fee0_like ''approx_fee_token1''"
    "\<not> fee1_in_list ''approx_fee_token1''" "\<not> fee1_like ''approx_fee_token1''"
    by (simp_all add: fee0_in_list_def fee0_like_def fee1_in_list_def fee1_like_def)
  show ?thesis
    using n0 n1 t b m by blast
qed

section \<open>The aggregate-only mapping: totals of a run\<close>














section \<open>The unified mapping: what handleSwap writes\<close>

lemma ensurePoolDayData_eq:
  "ensurePoolDayData s p ts =
     (case toI32 ts of
        Inl e \<Rightarrow> Inl e
      | Inr t \<Rightarrow>
          Inr (p @ ''-'' @ i32ToString (i32_div t 86400),
               case poolDayDatas s (p @ ''-'' @ i32ToString (i32_div t 86400)) of
                 Some ent \<Rightarrow> ent
               | None \<Rightarrow> \<lparr>day_pool = p, day_date = i32_div t 86400,
                           day_volumeToken0 = 0, day_volumeToken1 = 0, day_swapCount = 0,
                           day_volumeUSD = 0, day_feesUSD = 0, day_tvlUSD = 0\<rparr>))"
  by (simp add: ensurePoolDayData_def dayId_def Let_def split: sum.splits option.splits)

lemma ensurePoolHourData_eq:
  "ensurePoolHourData s p ts =
     (case toI32 ts of
        Inl e \<Rightarrow> Inl e
      | Inr t \<Rightarrow>
          Inr (p @ ''-'' @ i32ToString (i32_div t 3600),
               case poolHourDatas s (p @ ''-'' @ i32ToString (i32_div t 3600)) of
                 Some ent \<Rightarrow> ent
               | None \<Rightarrow> \<lparr>hour_pool = p, hour_hourStartUnix = i32_div t 3600,
                           hour_volumeToken0 = 0, hour_volumeToken1 = 0, hour_swapCount = 0,
                           hour_volumeUSD = 0, hour_feesUSD = 0, hour_tvlUSD = 0\<rparr>))"
  by (simp add: ensurePoolHourData_def hourId_def Let_def split: sum.splits option.splits)

lemma ensurePriceHour_eq:
  "ensurePriceHour s p ts =
     (case toI32 ts of
        Inl e \<Rightarrow> Inl e
      | Inr t \<Rightarrow>
          Inr (p @ ''-'' @ i32ToString (i32_div t 3600),
               case poolPriceHours s (p @ ''-'' @ i32ToString (i32_div t 3600)) of
                 Some ent \<Rightarrow> ent
               | None \<Rightarrow> \<lparr>ph_pool = p, ph_hourStartUnix = i32_div t 3600,
                           ph_sqrtPriceX96 = 0, ph_price0 = 0, ph_price1 = 0,
                           ph_liquidity = 0, ph_updatedAt = 0\<rparr>))"
  by (simp add: ensurePriceHour_def hourId_def Let_def split: sum.splits option.splits)





lemma handleSwap_resolved:
  assumes "pools s (toLowerCase (ev_address e)) = Some pool"
    and "tokens s (pool_token0 pool) = Some t0"
    and "tokens s (pool_token1 pool) = Some t1"
  shows "handleSwap bal p0 p1 s e =
     (case toI32 (ev_timestamp e) of
        Inl err \<Rightarrow> Inl err
      | Inr t \<Rightarrow>
     (case bal (pool_token0 pool) (ev_address e) of
        None \<Rightarrow> Inl CallReverted
      | Some b0 \<Rightarrow>
     (case bal (pool_token1 pool) (ev_address e) of
        None \<Rightarrow> Inl CallReverted
      | Some b1 \<Rightarrow>
          let p = toLowerCase (ev_address e);
              dk = p @ ''-'' @ i32ToString (i32_div t 86400);
              hk = p @ ''-'' @ i32ToString (i32_div t 3600);
              day = (case poolDayDatas s dk of
                       Some ent \<Rightarrow> ent
                     | None \<Rightarrow> \<lparr>day_pool = p, day_date = i32_div t 86400,
                           day_volumeToken0 = 0, day_volumeToken1 = 0, day_swapCount = 0,
                           day_volumeUSD = 0, day_feesUSD = 0, day_tvlUSD = 0\<rparr>);
              hour = (case poolHourDatas s hk of
                        Some ent \<Rightarrow> ent
                      | None \<Rightarrow> \<lparr>hour_pool = p, hour_hourStartUnix = i32_div t 3600,
                           hour_volumeToken0 = 0, hour_volumeToken1 = 0, hour_swapCount = 0,
                           hour_volumeUSD = 0, hour_feesUSD = 0, hour_tvlUSD = 0\<rparr>);
              ph = (case poolPriceHours s hk of
                      Some ent \<Rightarrow> ent
                    | None \<Rightarrow> \<lparr>ph_pool = p, ph_hourStartUnix = i32_div t 3600,
                           ph_sqrtPriceX96 = 0, ph_price0 = 0, ph_price1 = 0,
                           ph_liquidity = 0, ph_updatedAt = 0\<rparr>);
              q0 = of_int (absBigInt (amount0 e)) / 10 ^ nat (sint (tok_decimals t0));
              q1 = of_int (absBigInt (amount1 e)) / 10 ^ nat (sint (tok_decimals t1));
              amt0 = of_int b0 / 10 ^ nat (sint (tok_decimals t0));
              amt1 = of_int b1 / 10 ^ nat (sint (tok_decimals t1));
              tvlUSD = (if isStable (pool_token0 pool) \<and> \<not> isStable (pool_token1 pool)
                        then amt0 + amt1 * p1
                        else if isStable (pool_token1 pool) \<and> \<not> isStable (pool_token0 pool)
                        then amt1 + amt0 * p0
                        else 0)
          in Inr (s\<lparr>poolDayDatas := (poolDayDatas s)(dk \<mapsto>
                        day\<lparr>day_volumeToken0 := day_volumeToken0 day + q0,
                            day_volumeToken1 := day_volumeToken1 day + q1,
                            day_swapCount := day_swapCount day + 1,
                            day_tvlUSD := tvlUSD\<rparr>),
                    poolHourDatas := (poolHourDatas s)(hk \<mapsto>
                        hour\<lparr>hour_volumeToken0 := hour_volumeToken0 hour + q0,
                             hour_volumeToken1 := hour_volumeToken1 hour + q1,
                             hour_swapCount := hour_swapCount hour + 1,
                             hour_tvlUSD := tvlUSD\<rparr>),
                    poolPriceHours := (poolPriceHours s)(hk \<mapsto>
                        ph\<lparr>ph_sqrtPriceX96 := sqrtPriceX96 e, ph_price0 := p0,
                           ph_price1 := p1, ph_liquidity := liquidity e,
                           ph_updatedAt := t\<rparr>)\<rparr>))))"
  using assms
  by (simp add: handleSwap_def handleSwap_volumes_def handleSwap_price_def handleSwap_tvl_def
      safeBalanceOf_def ensurePoolDayData_eq ensurePoolHourData_eq ensurePriceHour_eq
      bd_div_exponentToBigDecimal toBigDecimal_def save_day_def save_hour_def
      save_priceHour_def Let_def
      split: sum.splits option.splits)

lemma ex_pool_id: "toLowerCase (ev_address ex_swap) = ''0xaa''"
  by (simp add: ex_swap_def toLowerCase_def lowerChar_def)

lemma ex_not_stable: "\<not> isStable ''0x01''" "\<not> isStable ''0x02''"
  by (simp_all add: isStable_def USDC_def USDT_def toLowerCase_def lowerChar_def)

lemma ex_keys:
  "toI32 (ev_timestamp ex_swap) = Inr 7200"
  "''0xaa'' @ ''-'' @ i32ToString (i32_div 7200 86400) = ''0xaa-0''"
  "''0xaa'' @ ''-'' @ i32ToString (i32_div 7200 3600) = ''0xaa-2''"
  by (simp_all add: ex_swap_def toI32_def i32_div_def signed_divide_int_def i32ToString_def
      natToString.simps)

lemma ex_store_tvl_lookups:
  "pools ex_store_tvl ''0xaa'' = Some ex_pool"
  "tokens ex_store_tvl (pool_token0 ex_pool) = Some ex_token"
  "tokens ex_store_tvl (pool_token1 ex_pool) = Some ex_token"
  "pools ex_store ''0xaa'' = Some ex_pool"
  "tokens ex_store (pool_token0 ex_pool) = Some ex_token"
  "tokens ex_store (pool_token1 ex_pool) = Some ex_token"
  "pools ex_store_no_tokens ''0xaa'' = Some ex_pool"
  "tokens ex_store_no_tokens (pool_token0 ex_pool) = None"
  by (simp_all add: ex_store_tvl_def ex_store_no_tokens_def ex_store_def ex_pool_def)


lemma ex_price_run:
  "\<exists>s'. handleSwap ex_balanceOf p0 p1 ex_store ex_swap = Inr s'
      \<and> poolPriceHours s' ''0xaa-2'' =
          Some \<lparr>ph_pool = ''0xaa'', ph_hourStartUnix = 2, ph_sqrtPriceX96 = 2 ^ 96,
                ph_price0 = p0, ph_price1 = p1, ph_liquidity = 1000, ph_updatedAt = 7200\<rparr>"
proof -
  note r = handleSwap_resolved [of ex_store ex_swap ex_pool ex_token ex_token ex_balanceOf p0 p1,
      unfolded ex_pool_id, OF ex_store_tvl_lookups(4-6)]
  have k: "toI32 (ev_timestamp ex_swap) = Inr 7200" by (rule ex_keys)
  have d: "i32_div 7200 3600 = 2" by (simp add: i32_div_def signed_divide_int_def)
  show ?thesis
    unfolding r k
    using ex_not_stable ex_keys(2,3) d
    by (simp add: Let_def ex_balanceOf_def ex_pool_def ex_token_def absBigInt_def
        ex_store_def ex_swap_def)
qed




text \<open>
  C3. The price record \<open>handleSwap\<close> writes holds the event's \<open>sqrtPriceX96\<close>, its
  liquidity and its timestamp, but \<open>price0\<close> and \<open>price1\<close> are the values of the
  identifiers \<open>p0\<close> and \<open>p1\<close>, which the handler never computes: for the example
  swap \<open>pricesFromSqrt\<close> gives \<open>(1, 1)\<close>, and the record holds whatever \<open>p0\<close> and
  \<open>p1\<close> are.
\<close>

theorem handleSwap_price_is_unbound:
  "pricesFromSqrt (sqrtPriceX96 ex_swap) (tok_decimals ex_token) (tok_decimals ex_token)
     = Inr (1, 1)
   \<and> (\<forall>p0 p1. \<exists>s'. handleSwap ex_balanceOf p0 p1 ex_store ex_swap = Inr s'
          \<and> poolPriceHours s' ''0xaa-2'' =
              Some \<lparr>ph_pool = ''0xaa'', ph_hourStartUnix = 2, ph_sqrtPriceX96 = 2 ^ 96,
                    ph_price0 = p0, ph_price1 = p1, ph_liquidity = 1000,
                    ph_updatedAt = 7200\<rparr>)"
proof -
  have "pricesFromSqrt (sqrtPriceX96 ex_swap) (tok_decimals ex_token) (tok_decimals ex_token)
          = Inr (1, 1)"
    by (simp add: pricesFromSqrt_def bd_div_def toBigDecimal_def exponentToBigDecimal_eq
        Let_def ex_swap_def ex_token_def)
  then show ?thesis
    using ex_price_run by blast
qed




end
